theory Spec2Isabelle
  imports Complex_Main "HOL-Library.Sublist"
begin

section \<open>Python values used by the monitor\<close>

text \<open>
  Strings are byte lists. \<open>str_in sub s\<close> is Python's \<open>sub in s\<close> on strings,
  \<open>lower\<close> is \<open>str.lower()\<close> on ASCII letters (other bytes are left alone).
  Wall-clock readings (\<open>time.time()\<close>) are reals handed to each operation by its caller;
  where one call of a method reads the clock several times, the readings are given as a
  function from the index of the reading to its value.
\<close>

datatype py_error = ZeroDivisionError | IndexError

fun str_in :: "string \<Rightarrow> string \<Rightarrow> bool" where
  "str_in sub [] = (sub = [])"
| "str_in sub (c # cs) = (prefix sub (c # cs) \<or> str_in sub cs)"

definition lower_char :: "char \<Rightarrow> char" where
  "lower_char c =
     (case map_of (zip ''ABCDEFGHIJKLMNOPQRSTUVWXYZ'' ''abcdefghijklmnopqrstuvwxyz'') c of
        Some d \<Rightarrow> d
      | None \<Rightarrow> c)"

definition upper_char :: "char \<Rightarrow> char" where
  "upper_char c =
     (case map_of (zip ''abcdefghijklmnopqrstuvwxyz'' ''ABCDEFGHIJKLMNOPQRSTUVWXYZ'') c of
        Some d \<Rightarrow> d
      | None \<Rightarrow> c)"

definition is_cased :: "char \<Rightarrow> bool" where
  "is_cased c = (c \<in> set ''ABCDEFGHIJKLMNOPQRSTUVWXYZabcdefghijklmnopqrstuvwxyz'')"

definition lower :: "string \<Rightarrow> string" where
  "lower s = map lower_char s"

text \<open>\<open>s.replace('_', ' ')\<close> and \<open>s.title()\<close>, used for the message of a log error.\<close>

definition replace_underscores :: "string \<Rightarrow> string" where
  "replace_underscores s = map (\<lambda>c. if c = CHR ''_'' then CHR '' '' else c) s"

fun title_from :: "bool \<Rightarrow> string \<Rightarrow> string" where
  "title_from prev_cased [] = []"
| "title_from prev_cased (c # cs) =
     (if is_cased c
      then (if prev_cased then lower_char c else upper_char c) # title_from True cs
      else c # title_from False cs)"

definition title :: "string \<Rightarrow> string" where
  "title s = title_from False s"

text \<open>\<open>str(n)\<close> for the integers that appear in messages.\<close>

definition digit_char :: "nat \<Rightarrow> char" where
  "digit_char n = char_of (48 + n)"

function str_nat :: "nat \<Rightarrow> string" where
  "str_nat n = (if n < 10 then [digit_char n] else str_nat (n div 10) @ [digit_char (n mod 10)])"
  by pat_completeness auto
termination
  by (relation "measure id") auto

definition str_int :: "int \<Rightarrow> string" where
  "str_int i = (if i < 0 then CHR ''-'' # str_nat (nat (- i)) else str_nat (nat i))"

text \<open>\<open>xs[-n:]\<close>: the last \<open>n\<close> elements; Python reads \<open>xs[-0:]\<close> as the whole list.\<close>

definition py_take_last :: "nat \<Rightarrow> 'a list \<Rightarrow> 'a list" where
  "py_take_last n xs = (if n = 0 then xs else drop (length xs - n) xs)"


section \<open>error\_detector.py\<close>

datatype error_severity = LOW | MEDIUM | HIGH | CRITICAL

fun severity_value :: "error_severity \<Rightarrow> string" where
  "severity_value LOW = ''low''"
| "severity_value MEDIUM = ''medium''"
| "severity_value HIGH = ''high''"
| "severity_value CRITICAL = ''critical''"

text \<open>The values stored in the \<open>details\<close> dictionary of an error.\<close>

datatype detail = DStr string | DInt int | DNum real | DList "string list" | DNone

record detected_error =
  error_type :: string
  severity :: error_severity
  message :: string
  details :: "(string \<times> detail) list"
  timestamp :: real
  source :: string

text \<open>
  The \<open>ui_monitoring\<close> section of the configuration, each key with the default that
  the \<open>.get(key, default)\<close> calls of the source give it; the two keys under
  \<open>focus_monitoring\<close> are the fields \<open>focus_enabled\<close> and \<open>focus_ignore_in_states\<close>.
\<close>

record ui_config =
  state_aware_checking :: bool
  expected_elements_by_state :: "string \<rightharpoonup> string list"
  ignore_missing_elements_in_states :: "string list"
  strict_element_checking :: bool
  focus_enabled :: bool
  focus_ignore_in_states :: "string list"

definition default_ui_config :: ui_config where
  "default_ui_config =
     \<lparr> state_aware_checking = True,
       expected_elements_by_state = Map.empty,
       ignore_missing_elements_in_states = [],
       strict_element_checking = False,
       focus_enabled = True,
       focus_ignore_in_states = [] \<rparr>"

text \<open>
  The mutable state of an \<open>ErrorDetector\<close>. \<open>last_memory_usage\<close> is \<open>None\<close> until the
  attribute \<open>_last_memory_usage\<close> has been set (the source tests it with \<open>hasattr\<close>).
\<close>

record detector =
  ui_cfg :: ui_config
  error_history :: "detected_error list"
  max_history_size :: nat
  last_memory_usage :: "int option"

definition app_package :: string where
  "app_package = ''com.webviewer.firetv''"

definition new_detector :: "ui_config \<Rightarrow> detector" where
  "new_detector cfg =
     \<lparr> ui_cfg = cfg, error_history = [], max_history_size = 1000, last_memory_usage = None \<rparr>"

subsection \<open>App-state inference and the UI checks\<close>

definition detect_app_state :: "string \<Rightarrow> string" where
  \<open>detect_app_state ui_dump =
     (if str_in ''SettingsActivity'' ui_dump \<or> str_in ''ProfilesActivity'' ui_dump
           \<or> str_in ''ProfileEditActivity'' ui_dump
      then ''settings''
      else if str_in ''loading'' (lower ui_dump) \<or> str_in ''progress'' (lower ui_dump)
      then ''loading''
      else if str_in ''welcomeContainer'' ui_dump \<and> \<not> str_in ''visibility="gone"'' ui_dump
      then ''error_welcome''
      else if str_in ''webViewCard'' ui_dump \<and> \<not> str_in ''visibility="gone"'' ui_dump
      then ''browsing''
      else ''unknown'')\<close>

definition get_expected_elements_for_state :: "ui_config \<Rightarrow> string \<Rightarrow> string \<Rightarrow> string list" where
  "get_expected_elements_for_state cfg app_state ui_dump =
     (if \<not> state_aware_checking cfg
      then [''profilesButton'', ''webView'', ''browserToolbar'']
      else
        let expected = (case expected_elements_by_state cfg app_state of
                          None \<Rightarrow> [] | Some es \<Rightarrow> es);
            expected = (if app_state \<in> set (ignore_missing_elements_in_states cfg)
                        then [] else expected);
            expected = (if strict_element_checking cfg \<and> app_state = ''browsing''
                        then [''profilesButton'', ''webView'', ''browserToolbar'']
                        else expected)
        in expected)"

definition missing_ui_element_error ::
  "string \<Rightarrow> string \<Rightarrow> string list \<Rightarrow> real \<Rightarrow> detected_error" where
  "missing_ui_element_error element app_state expected_elements t =
     \<lparr> error_type = ''missing_ui_element'',
       severity = LOW,
       message = ''Missing UI element: '' @ element @ '' (state: '' @ app_state @ '')'',
       details = [(''missing_element'', DStr element),
                  (''app_state'', DStr app_state),
                  (''expected_elements'', DList expected_elements)],
       timestamp = t,
       source = ''ui'' \<rparr>"

definition no_focused_element_error :: "string \<Rightarrow> real \<Rightarrow> detected_error" where
  "no_focused_element_error app_state t =
     \<lparr> error_type = ''no_focused_element'',
       severity = LOW,
       message = ''No focused UI element detected (state: '' @ app_state @ '')'',
       details = [(''app_state'', DStr app_state)],
       timestamp = t,
       source = ''ui'' \<rparr>"

definition analyze_ui_dump :: "detector \<Rightarrow> (nat \<Rightarrow> real) \<Rightarrow> string \<Rightarrow> detected_error list" where
  \<open>analyze_ui_dump d clk ui_dump =
     (if ui_dump = [] then []
      else
        let app_state = detect_app_state ui_dump;
            expected_elements = get_expected_elements_for_state (ui_cfg d) app_state ui_dump;
            missing = filter (\<lambda>element. \<not> str_in element ui_dump) expected_elements;
            missing_errors =
              map (\<lambda>(i, element).
                     missing_ui_element_error element app_state expected_elements (clk i))
                  (enumerate 0 missing);
            focus_errors =
              (if focus_enabled (ui_cfg d)
                  \<and> app_state \<notin> set (focus_ignore_in_states (ui_cfg d))
                  \<and> \<not> str_in ''focused="true"'' ui_dump
               then [no_focused_element_error app_state (clk (length missing))]
               else [])
        in missing_errors @ focus_errors)\<close>

subsection \<open>Memory analysis\<close>

text \<open>
  \<open>memory_info\<close> is the dictionary parsed from the device's memory report, as an
  association list. The comparison \<open>total_pss > last_usage * 1.5\<close> and the percentage are
  computed here in exact arithmetic. Python computes both in binary floating point: the
  comparison agrees with the exact one for every sample below \<open>2 ^ 52\<close> KB, while the
  percentage stored under \<open>increase_percentage\<close> is the exact quotient rounded (equal to
  it for the samples 100000 and 160000, not in general). The division by \<open>last_usage\<close>
  raises \<open>ZeroDivisionError\<close> in Python when the previous sample is \<open>0\<close>; the exception
  leaves the method before \<open>_last_memory_usage\<close> is assigned, so the detector is unchanged.
\<close>

definition high_memory_usage_error :: "int \<Rightarrow> real \<Rightarrow> detected_error" where
  "high_memory_usage_error total_pss t =
     \<lparr> error_type = ''high_memory_usage'',
       severity = MEDIUM,
       message = ''High memory usage detected: '' @ str_int total_pss @ ''KB'',
       details = [(''memory_usage_kb'', DInt total_pss), (''threshold_kb'', DInt 500000)],
       timestamp = t,
       source = ''memory'' \<rparr>"

definition potential_memory_leak_error :: "int \<Rightarrow> int \<Rightarrow> real \<Rightarrow> detected_error" where
  "potential_memory_leak_error last_usage total_pss t =
     \<lparr> error_type = ''potential_memory_leak'',
       severity = HIGH,
       message = ''Potential memory leak: '' @ str_int last_usage @ ''KB -> ''
                   @ str_int total_pss @ ''KB'',
       details = [(''previous_usage_kb'', DInt last_usage),
                  (''current_usage_kb'', DInt total_pss),
                  (''increase_percentage'',
                     DNum ((of_int (total_pss - last_usage) / of_int last_usage) * 100))],
       timestamp = t,
       source = ''memory'' \<rparr>"

definition analyze_memory_usage ::
  "detector \<Rightarrow> (nat \<Rightarrow> real) \<Rightarrow> (string \<times> int) list
     \<Rightarrow> py_error + (detected_error list \<times> detector)" where
  "analyze_memory_usage d clk memory_info =
     (if memory_info = [] then Inr ([], d)
      else
        let total_pss = (case map_of memory_info ''total_pss_kb'' of None \<Rightarrow> 0 | Some v \<Rightarrow> v);
            high_errors = (if total_pss > 500000
                           then [high_memory_usage_error total_pss (clk 0)] else [])
        in case last_memory_usage d of
             None \<Rightarrow> Inr (high_errors, d\<lparr>last_memory_usage := Some total_pss\<rparr>)
           | Some last_usage \<Rightarrow>
               if of_int total_pss > (of_int last_usage :: real) * 1.5
               then if last_usage = 0 then Inl ZeroDivisionError
                    else Inr (high_errors
                                @ [potential_memory_leak_error last_usage total_pss
                                     (clk (length high_errors))],
                              d\<lparr>last_memory_usage := Some total_pss\<rparr>)
               else Inr (high_errors, d\<lparr>last_memory_usage := Some total_pss\<rparr>))"

subsection \<open>Error history and the escalation decision\<close>

definition add_detected_error :: "detected_error \<Rightarrow> detector \<Rightarrow> detector" where
  "add_detected_error error d =
     (let h = error_history d @ [error]
      in d\<lparr>error_history :=
             (if length h > max_history_size d then py_take_last (max_history_size d) h else h)\<rparr>)"



subsection \<open>Log-line analysis\<close>

text \<open>
  An \<open>ErrorPattern\<close>: its name, the source text of its regular expression, its severity
  and the name of its extraction function. Python's regular-expression engine is a
  parameter \<open>re_search\<close> of the analysis: \<open>re_search p text\<close> is \<open>group(0)\<close> of
  \<open>re.compile(p, re.IGNORECASE | re.MULTILINE).search(text)\<close>, or \<open>None\<close> when there is
  no match.
\<close>

record error_pattern =
  name :: string
  pattern :: string
  pattern_severity :: error_severity
  extract_func :: string

definition initialize_patterns :: "error_pattern list" where
  "initialize_patterns =
     [ \<lparr> name = ''app_crash'', pattern = ''FATAL EXCEPTION.*'' @ app_package,
         pattern_severity = CRITICAL, extract_func = ''_extract_crash_info'' \<rparr>,
       \<lparr> name = ''anr'', pattern = ''ANR in '' @ app_package,
         pattern_severity = HIGH, extract_func = ''_extract_anr_info'' \<rparr>,
       \<lparr> name = ''out_of_memory'', pattern = ''OutOfMemoryError|OOM|Low memory|GC_FOR_ALLOC'',
         pattern_severity = HIGH, extract_func = ''_default_extract'' \<rparr>,
       \<lparr> name = ''network_error'',
         pattern = ''NetworkOnMainThreadException|ConnectException|SocketException|UnknownHostException'',
         pattern_severity = MEDIUM, extract_func = ''_extract_network_error'' \<rparr>,
       \<lparr> name = ''webview_error'',
         pattern = ''WebView.*error|onReceivedError|ERR_|Failed to load|net::ERR_'',
         pattern_severity = MEDIUM, extract_func = ''_extract_webview_error'' \<rparr>,
       \<lparr> name = ''profile_error'',
         pattern = ''ProfileManager.*error|Failed to.*profile|Profile.*not found'',
         pattern_severity = MEDIUM, extract_func = ''_default_extract'' \<rparr>,
       \<lparr> name = ''preferences_error'',
         pattern = ''SharedPreferences.*error|Failed to save|Gson.*error'',
         pattern_severity = LOW, extract_func = ''_default_extract'' \<rparr>,
       \<lparr> name = ''focus_error'',
         pattern = ''Focus.*error|IllegalStateException.*focus|Unable to focus'',
         pattern_severity = LOW, extract_func = ''_default_extract'' \<rparr>,
       \<lparr> name = ''lifecycle_error'',
         pattern = app_package @ ''.*IllegalStateException|Activity.*destroyed|Fragment.*destroyed'',
         pattern_severity = MEDIUM, extract_func = ''_default_extract'' \<rparr>,
       \<lparr> name = ''permission_error'',
         pattern = ''SecurityException|Permission denied|ACCESS_DENIED'',
         pattern_severity = MEDIUM, extract_func = ''_default_extract'' \<rparr>,
       \<lparr> name = ''resource_error'',
         pattern = ''ResourceNotFoundException|Unable to find resource|Resources''
                     @ [CHR 0x5C] @ ''$NotFoundException'',
         pattern_severity = LOW, extract_func = ''_default_extract'' \<rparr> ]"

text \<open>
  \<open>split_by P s\<close> cuts \<open>s\<close> at every character satisfying \<open>P\<close>: \<open>s.split(sep)\<close> for a
  one-character separator. \<open>split_ws\<close> is \<open>s.split()\<close>, \<open>is_blank\<close> says that
  \<open>s.strip()\<close> is empty. \<open>is_space\<close> holds of the ASCII white space only; the white
  space that Python recognises beyond ASCII (such as U+00A0 or U+2028) is not white space
  here, so the crash details of a line holding such characters may differ from Python's.
\<close>

definition is_space :: "char \<Rightarrow> bool" where
  "is_space c = (c \<in> set [CHR '' '', CHR 0x09, CHR 0x0A, CHR 0x0B, CHR 0x0C, CHR 0x0D,
                             CHR 0x1C, CHR 0x1D, CHR 0x1E, CHR 0x1F])"

fun split_by :: "(char \<Rightarrow> bool) \<Rightarrow> string \<Rightarrow> string list" where
  "split_by P [] = [[]]"
| "split_by P (c # cs) =
     (if P c then [] # split_by P cs
      else (case split_by P cs of
              [] \<Rightarrow> [[c]]
            | w # ws \<Rightarrow> (c # w) # ws))"

definition split_ws :: "string \<Rightarrow> string list" where
  "split_ws s = filter (\<lambda>w. w \<noteq> []) (split_by is_space s)"

definition is_blank :: "string \<Rightarrow> bool" where
  "is_blank s = list_all is_space s"

text \<open>
  \<open>_extract_exception_type\<close>: the first crash line holding \<open>Exception:\<close> or \<open>Error:\<close>
  decides; \<open>parts[0].split()[-1]\<close> raises \<open>IndexError\<close> when nothing but blanks
  precedes the first colon.
\<close>

fun extract_exception_type :: "string list \<Rightarrow> py_error + detail" where
  "extract_exception_type [] = Inr DNone"
| "extract_exception_type (line # rest) =
     (if str_in ''Exception:'' line \<or> str_in ''Error:'' line
      then (let parts = split_by (\<lambda>c. c = CHR '':'') line
            in if length parts \<ge> 2
               then (case split_ws (hd parts) of
                       [] \<Rightarrow> Inl IndexError
                     | w # ws \<Rightarrow> Inr (DStr (last (w # ws))))
               else extract_exception_type rest)
      else extract_exception_type rest)"

text \<open>\<open>_extract_crash_info\<close>; \<open>full_text\<close> is \<open>match.string\<close>, the analysed text.\<close>

fun first_index :: "('a \<Rightarrow> bool) \<Rightarrow> 'a list \<Rightarrow> nat" where
  "first_index P [] = 0"
| "first_index P (x # xs) = (if P x then 0 else Suc (first_index P xs))"

definition extract_crash_info :: "string \<Rightarrow> py_error + (string \<times> detail) list" where
  "extract_crash_info full_text =
     (let lines = split_by (\<lambda>c. c = CHR 0x0A) full_text;
          start_idx = (if list_ex (str_in ''FATAL EXCEPTION'') lines
                       then first_index (str_in ''FATAL EXCEPTION'') lines else 0);
          window = take (min (start_idx + 20) (length lines) - start_idx) (drop start_idx lines);
          crash_lines = filter (\<lambda>l. \<not> is_blank l) window
      in case extract_exception_type crash_lines of
           Inl e \<Rightarrow> Inl e
         | Inr ty \<Rightarrow> Inr [(''crash_trace'', DList crash_lines), (''exception_type'', ty)])"

definition run_extract ::
  "string \<Rightarrow> string \<Rightarrow> string \<Rightarrow> py_error + (string \<times> detail) list" where
  "run_extract func full_text group0 =
     (if func = ''_extract_crash_info'' then extract_crash_info full_text
      else if func = ''_extract_anr_info''
      then Inr [(''anr_text'', DStr group0), (''reason'', DStr ''Application not responding'')]
      else if func = ''_extract_network_error''
      then Inr [(''network_error'', DStr group0), (''error_type'', DStr ''connectivity'')]
      else if func = ''_extract_webview_error''
      then Inr [(''webview_error'', DStr group0), (''component'', DStr ''webview'')]
      else Inr [(''matched_text'', DStr group0)])"

text \<open>\<open>ErrorPattern.match\<close>.\<close>

definition pattern_match ::
  "(string \<Rightarrow> string \<Rightarrow> string option) \<Rightarrow> error_pattern \<Rightarrow> string
     \<Rightarrow> py_error + (string \<times> detail) list option" where
  "pattern_match re_search p text =
     (case re_search (pattern p) text of
        None \<Rightarrow> Inr None
      | Some group0 \<Rightarrow>
          (case run_extract (extract_func p) text group0 of
             Inl e \<Rightarrow> Inl e
           | Inr dts \<Rightarrow> Inr (Some dts)))"

definition logcat_error ::
  "error_pattern \<Rightarrow> (string \<times> detail) list \<Rightarrow> real \<Rightarrow> detected_error" where
  "logcat_error p match_details t =
     \<lparr> error_type = name p,
       severity = pattern_severity p,
       message = title (replace_underscores (name p)) @ '' detected'',
       details = match_details,
       timestamp = t,
       source = ''logcat'' \<rparr>"

text \<open>
  The loop over the patterns; an exception raised by an extraction function leaves the
  method, and the errors collected so far are lost with it. An empty \<open>details\<close>
  dictionary is falsy and produces no error.
\<close>

fun scan_patterns ::
  "(string \<Rightarrow> string \<Rightarrow> string option) \<Rightarrow> (nat \<Rightarrow> real) \<Rightarrow> string
     \<Rightarrow> error_pattern list \<Rightarrow> detected_error list \<Rightarrow> py_error + detected_error list" where
  "scan_patterns re_search clk line [] detected_errors = Inr detected_errors"
| "scan_patterns re_search clk line (p # ps) detected_errors =
     (case pattern_match re_search p line of
        Inl e \<Rightarrow> Inl e
      | Inr None \<Rightarrow> scan_patterns re_search clk line ps detected_errors
      | Inr (Some match_details) \<Rightarrow>
          if match_details = [] then scan_patterns re_search clk line ps detected_errors
          else scan_patterns re_search clk line ps
                 (detected_errors
                    @ [logcat_error p match_details (clk (length detected_errors))]))"

definition relevance_keywords :: "string list" where
  "relevance_keywords = [''fatal'', ''error'', ''exception'', ''crash'', ''anr'']"

definition analyze_logcat_line ::
  "(string \<Rightarrow> string \<Rightarrow> string option) \<Rightarrow> (nat \<Rightarrow> real) \<Rightarrow> string
     \<Rightarrow> py_error + detected_error list" where
  "analyze_logcat_line re_search clk line =
     (if str_in app_package line
         \<or> list_ex (\<lambda>keyword. str_in keyword (lower line)) relevance_keywords
      then scan_patterns re_search clk line initialize_patterns []
      else Inr [])"


section \<open>auto\_fixer.py\<close>

datatype fix_result = SUCCESS | FAILED | PARTIAL | SKIPPED

datatype fix_detail = FStr string | FError detected_error

text \<open>
  A \<open>FixAction\<close>; \<open>FError e\<close> stands for the dictionary \<open>e.to_dict()\<close> stored under
  \<open>original_error\<close>.
\<close>

record fix_action =
  action_name :: string
  result :: fix_result
  fix_message :: string
  fix_details :: "(string \<times> fix_detail) list"
  fix_timestamp :: real
  duration :: real

record auto_fixer =
  fix_history :: "fix_action list"
  max_fix_attempts :: nat
  fix_cooldown :: real
  last_fix_times :: "string \<rightharpoonup> real"

definition new_auto_fixer :: auto_fixer where
  "new_auto_fixer =
     \<lparr> fix_history = [], max_fix_attempts = 3, fix_cooldown = 60, last_fix_times = Map.empty \<rparr>"

text \<open>
  The strategy table maps an error kind to the method that handles it. The methods drive
  the device, so what a call of one does is a parameter \<open>run\<close> of \<open>apply_fix\<close>:
  \<open>run method error\<close> is either the \<open>FixResult\<close> the method returns or the text of the
  exception it raises.
\<close>

datatype strategy_outcome = Returned fix_result | Raised string

definition fix_strategies :: "string \<rightharpoonup> string" where
  "fix_strategies = map_of
     [ (''app_crash'', ''_fix_app_crash''),
       (''anr'', ''_fix_anr''),
       (''out_of_memory'', ''_fix_memory_issue''),
       (''network_error'', ''_fix_network_error''),
       (''webview_error'', ''_fix_webview_error''),
       (''profile_error'', ''_fix_profile_error''),
       (''preferences_error'', ''_fix_preferences_error''),
       (''focus_error'', ''_fix_focus_error''),
       (''lifecycle_error'', ''_fix_lifecycle_error''),
       (''app_not_running'', ''_fix_app_not_running''),
       (''high_memory_usage'', ''_fix_high_memory_usage''),
       (''potential_memory_leak'', ''_fix_memory_leak''),
       (''missing_ui_element'', ''_fix_missing_ui_element''),
       (''no_focused_element'', ''_fix_no_focus''),
       (''unexpected_activity'', ''_fix_unexpected_activity'') ]"

definition can_attempt_fix :: "real \<Rightarrow> auto_fixer \<Rightarrow> string \<Rightarrow> bool" where
  "can_attempt_fix now f kind =
     (let last_fix_time = (case last_fix_times f kind of None \<Rightarrow> 0 | Some t \<Rightarrow> t)
      in now - last_fix_time \<ge> fix_cooldown f)"

text \<open>
  \<open>apply_fix\<close> reads the clock three times: \<open>clk 0\<close> in \<open>can_attempt_fix\<close>, \<open>clk 1\<close> as
  \<open>start_time\<close> and \<open>clk 2\<close> when the strategy has returned or raised.
\<close>

definition apply_fix ::
  "(string \<Rightarrow> detected_error \<Rightarrow> strategy_outcome) \<Rightarrow> (nat \<Rightarrow> real) \<Rightarrow> auto_fixer
     \<Rightarrow> detected_error \<Rightarrow> fix_action option \<times> auto_fixer" where
  "apply_fix run clk f error =
     (if \<not> can_attempt_fix (clk 0) f (error_type error) then (None, f)
      else case fix_strategies (error_type error) of
        None \<Rightarrow> (None, f)
      | Some fix_strategy \<Rightarrow>
          let start_time = clk 1
          in (case run fix_strategy error of
                Returned res \<Rightarrow>
                  let fa = \<lparr> action_name = ''fix_'' @ error_type error,
                             result = res,
                             fix_message = ''Fix attempt for '' @ error_type error,
                             fix_details = [(''original_error'', FError error)],
                             fix_timestamp = start_time,
                             duration = clk 2 - start_time \<rparr>
                  in (Some fa,
                      f\<lparr> fix_history := fix_history f @ [fa],
                         last_fix_times := (last_fix_times f)(error_type error \<mapsto> start_time) \<rparr>)
              | Raised e \<Rightarrow>
                  let fa = \<lparr> action_name = ''fix_'' @ error_type error,
                             result = FAILED,
                             fix_message = ''Fix failed: '' @ e,
                             fix_details = [(''error'', FStr e), (''original_error'', FError error)],
                             fix_timestamp = start_time,
                             duration = clk 2 - start_time \<rparr>
                  in (Some fa, f\<lparr> fix_history := fix_history f @ [fa] \<rparr>)))"


section \<open>monitor.py\<close>

record monitoring_stats =
  start_time :: real
  total_errors_detected :: int
  total_fixes_attempted :: int
  successful_fixes :: int
  failed_fixes :: int
  current_status :: string
  last_error_time :: "real option"
  last_fix_time :: "real option"

text \<open>The two configuration keys that the error-handling path reads.\<close>

record monitor_config =
  enable_auto_fix :: bool
  max_fix_attempts_per_hour :: int

definition default_config :: monitor_config where
  "default_config = \<lparr> enable_auto_fix = True, max_fix_attempts_per_hour = 10 \<rparr>"

text \<open>
  A background task as far as \<open>stop\<close> sees it: \<open>cancel()\<close> requests the cancellation of
  a task that has not finished and does nothing to one that has.
\<close>

datatype task = Pending | Cancel_requested | Finished

fun cancel :: "task \<Rightarrow> task" where
  "cancel Pending = Cancel_requested"
| "cancel Cancel_requested = Cancel_requested"
| "cancel Finished = Finished"

text \<open>
  The state of an \<open>AppMonitor\<close>. \<open>executor_shutdown\<close> records that
  \<open>self.executor.shutdown\<close> has been called: from then on \<open>loop.run_in_executor\<close> raises
  \<open>RuntimeError\<close> (the thread pool refuses new work after its shutdown).
\<close>

record monitor =
  config :: monitor_config
  error_detector :: detector
  fixer :: auto_fixer
  is_running :: bool
  stats :: monitoring_stats
  logcat_task :: "task option"
  health_check_task :: "task option"
  maintenance_task :: "task option"
  logcat_buffer :: "(real \<times> string) list"
  max_buffer_size :: nat
  executor_shutdown :: bool

definition new_monitor :: "monitor_config \<Rightarrow> ui_config \<Rightarrow> real \<Rightarrow> monitor" where
  "new_monitor cfg ucfg now =
     \<lparr> config = cfg,
       error_detector = new_detector ucfg,
       fixer = new_auto_fixer,
       is_running = False,
       stats = \<lparr> start_time = now, total_errors_detected = 0, total_fixes_attempted = 0,
                 successful_fixes = 0, failed_fixes = 0, current_status = ''initializing'',
                 last_error_time = None, last_fix_time = None \<rparr>,
       logcat_task = None,
       health_check_task = None,
       maintenance_task = None,
       logcat_buffer = [],
       max_buffer_size = 1000,
       executor_shutdown = False \<rparr>"

definition stop :: "monitor \<Rightarrow> monitor" where
  "stop m =
     m\<lparr> is_running := False,
        stats := (stats m)\<lparr> current_status := ''stopping'' \<rparr>,
        logcat_task := map_option cancel (logcat_task m),
        health_check_task := map_option cancel (health_check_task m),
        maintenance_task := map_option cancel (maintenance_task m) \<rparr>"

text \<open>
  \<open>_cleanup\<close> shuts the executor down, writes the final report (\<open>_generate_report\<close>
  catches its own exceptions and changes no state of the monitor) and then hands the
  disconnect to the executor it has just shut down. An exception anywhere in the
  \<open>try\<close> block skips the assignment of \<open>stopped\<close>.
\<close>

definition cleanup :: "monitor \<Rightarrow> monitor" where
  "cleanup m =
     (let m1 = m\<lparr> executor_shutdown := True \<rparr>
      in if executor_shutdown m1 then m1
         else m1\<lparr> stats := (stats m1)\<lparr> current_status := ''stopped'' \<rparr> \<rparr>)"

text \<open>\<open>AppMonitor._can_attempt_fix\<close>, the hourly rate limit.\<close>

definition rate_limit_can_attempt_fix :: "real \<Rightarrow> monitor \<Rightarrow> bool" where
  "rate_limit_can_attempt_fix current_time m =
     (let max_fixes = max_fix_attempts_per_hour (config m);
          one_hour_ago = current_time - 3600;
          recent_fixes = filter (\<lambda>action. fix_timestamp action \<ge> one_hour_ago)
                                (fix_history (fixer m))
      in int (length recent_fixes) < max_fixes)"

text \<open>
  \<open>_attempt_auto_fix\<close> reads the clock for the rate limit (\<open>clk 0\<close>) and for
  \<open>last_fix_time\<close> (\<open>clk 1\<close>); the readings of \<open>apply_fix\<close> follow.
\<close>

definition attempt_auto_fix ::
  "(string \<Rightarrow> detected_error \<Rightarrow> strategy_outcome) \<Rightarrow> (nat \<Rightarrow> real) \<Rightarrow> monitor
     \<Rightarrow> detected_error \<Rightarrow> monitor" where
  "attempt_auto_fix run clk m error =
     (if \<not> rate_limit_can_attempt_fix (clk 0) m then m
      else
        let m1 = m\<lparr> stats := (stats m)\<lparr> total_fixes_attempted := total_fixes_attempted (stats m) + 1,
                                       last_fix_time := Some (clk 1) \<rparr> \<rparr>
        in if executor_shutdown m1
           then m1\<lparr> stats := (stats m1)\<lparr> failed_fixes := failed_fixes (stats m1) + 1 \<rparr> \<rparr>
           else
             (case apply_fix run (\<lambda>i. clk (i + 2)) (fixer m1) error of
                (None, f') \<Rightarrow> m1\<lparr> fixer := f' \<rparr>
              | (Some fa, f') \<Rightarrow>
                  if result fa = SUCCESS
                  then m1\<lparr> fixer := f',
                           stats := (stats m1)\<lparr> successful_fixes := successful_fixes (stats m1) + 1 \<rparr> \<rparr>
                  else m1\<lparr> fixer := f',
                           stats := (stats m1)\<lparr> failed_fixes := failed_fixes (stats m1) + 1 \<rparr> \<rparr>))"


text \<open>\<open>_cleanup_logs\<close>, run by the maintenance loop.\<close>

definition cleanup_logs :: "monitor \<Rightarrow> monitor" where
  "cleanup_logs m =
     (let d = error_detector m;
          d' = (if length (error_history d) > 500
                then d\<lparr> error_history := py_take_last 500 (error_history d) \<rparr> else d);
          f = fixer m;
          f' = (if length (fix_history f) > 200
                then f\<lparr> fix_history := py_take_last 200 (fix_history f) \<rparr> else f)
      in m\<lparr> error_detector := d',
            fixer := f',
            logcat_buffer := (if length (logcat_buffer m) > max_buffer_size m
                              then py_take_last (max_buffer_size m) (logcat_buffer m)
                              else logcat_buffer m) \<rparr>)"


section \<open>Example values\<close>

text \<open>Concrete clocks, strategies, errors and monitors for the evaluations below.\<close>

definition constant_clock :: "real \<Rightarrow> nat \<Rightarrow> real" where
  "constant_clock t i = t"

definition strategy_returns :: "fix_result \<Rightarrow> string \<Rightarrow> detected_error \<Rightarrow> strategy_outcome" where
  "strategy_returns r method error = Returned r"

definition strategy_raises :: "string \<Rightarrow> string \<Rightarrow> detected_error \<Rightarrow> strategy_outcome" where
  "strategy_raises text method error = Raised text"

definition match_everything :: "string \<Rightarrow> string \<Rightarrow> string option" where
  "match_everything p text = Some text"

definition example_error :: "string \<Rightarrow> error_severity \<Rightarrow> real \<Rightarrow> detected_error" where
  "example_error kind sev t =
     \<lparr> error_type = kind, severity = sev, message = kind, details = [], timestamp = t,
       source = ''logcat'' \<rparr>"

definition example_action :: "real \<Rightarrow> fix_action" where
  "example_action t =
     \<lparr> action_name = ''fix_app_crash'', result = FAILED,
       fix_message = ''Fix attempt for app_crash'', fix_details = [], fix_timestamp = t,
       duration = 1 \<rparr>"

text \<open>A monitor with the hourly ceiling set to 2 and two attempts already in the history.\<close>

definition limited_monitor :: monitor where
  "limited_monitor =
     (new_monitor (default_config\<lparr> max_fix_attempts_per_hour := 2 \<rparr>) default_ui_config 0)
       \<lparr> fixer := new_auto_fixer\<lparr> fix_history := [example_action 1000, example_action 2000] \<rparr> \<rparr>"




text \<open>An AutoFixer whose history holds 200 outcomes.\<close>

definition full_fixer :: auto_fixer where
  "full_fixer = new_auto_fixer\<lparr> fix_history := replicate 200 (example_action 1000) \<rparr>"


text \<open>A monitor in the \<open>monitoring\<close> state with its three tasks running.\<close>

definition running_monitor :: monitor where
  "running_monitor =
     (new_monitor default_config default_ui_config 1000)
       \<lparr> is_running := True,
         stats := (stats (new_monitor default_config default_ui_config 1000))
                    \<lparr> current_status := ''monitoring'' \<rparr>,
         logcat_task := Some Pending,
         health_check_task := Some Pending,
         maintenance_task := Some Pending \<rparr>"


section \<open>Properties\<close>

subsection \<open>Auxiliary facts\<close>

lemma fix_strategies_app_crash: "fix_strategies ''app_crash'' = Some ''_fix_app_crash''"
  by (simp add: fix_strategies_def)


lemma cancel_twice: "map_option cancel (map_option cancel t) = map_option cancel t"
proof (cases t)
  case None
  then show ?thesis by simp
next
  case (Some a)
  then show ?thesis by (cases a) simp_all
qed

text \<open>
  \<open>_cleanup\<close> submits the disconnect to the executor after shutting it down, so the
  assignment of \<open>stopped\<close> at the end of its \<open>try\<close> block is never reached.
\<close>

lemma cleanup_keeps_status: "current_status (stats (cleanup m)) = current_status (stats m)"
  by (simp add: cleanup_def)


text \<open>
  The history after \<open>add_detected_error\<close>, and after a run of them: the newest entries,
  as many as the cap admits.
\<close>

lemma add_detected_error_history:
  "0 < max_history_size d \<Longrightarrow>
     error_history (add_detected_error e d)
       = drop (length (error_history d) + 1 - max_history_size d) (error_history d @ [e])"
  by (simp add: add_detected_error_def Let_def py_take_last_def)

lemma add_detected_error_cap [simp]:
  "max_history_size (add_detected_error e d) = max_history_size d"
  by (simp add: add_detected_error_def Let_def)

lemma fold_add_cap [simp]:
  "max_history_size (fold add_detected_error es d) = max_history_size d"
  by (induction es arbitrary: d) simp_all







lemma attempt_auto_fix_detector [simp]:
  "error_detector (attempt_auto_fix run clk m e) = error_detector m"
  by (simp add: attempt_auto_fix_def Let_def split: prod.splits option.splits)




text \<open>What \<open>stop\<close> does, on any monitor.\<close>

lemma stop_effect:
  "stop (stop m) = stop m
   \<and> current_status (stats (stop m)) = ''stopping''
   \<and> \<not> is_running (stop m)
   \<and> logcat_task (stop m) = map_option cancel (logcat_task m)
   \<and> health_check_task (stop m) = map_option cancel (health_check_task m)
   \<and> maintenance_task (stop m) = map_option cancel (maintenance_task m)"
  by (simp add: stop_def cancel_twice)

text \<open>
  The examples of the specification for the memory signal: after a sample of 100000 KB, a
  sample of 160000 KB gives one \<open>potential_memory_leak\<close> error of high severity with an
  increase of 60 percent, and a sample of 140000 KB gives nothing.
\<close>

lemma memory_leak_examples:
  "analyze_memory_usage ((new_detector default_ui_config)\<lparr>last_memory_usage := Some 100000\<rparr>)
        (constant_clock 1030) [(''total_pss_kb'', 160000)]
     = Inr ([potential_memory_leak_error 100000 160000 1030],
            (new_detector default_ui_config)\<lparr>last_memory_usage := Some 160000\<rparr>)
   \<and> severity (potential_memory_leak_error 100000 160000 1030) = HIGH
   \<and> details (potential_memory_leak_error 100000 160000 1030)
       = [(''previous_usage_kb'', DInt 100000), (''current_usage_kb'', DInt 160000),
          (''increase_percentage'', DNum 60)]
   \<and> analyze_memory_usage ((new_detector default_ui_config)\<lparr>last_memory_usage := Some 100000\<rparr>)
        (constant_clock 1030) [(''total_pss_kb'', 140000)]
      = Inr ([], (new_detector default_ui_config)\<lparr>last_memory_usage := Some 140000\<rparr>)"
  by (simp add: analyze_memory_usage_def new_detector_def potential_memory_leak_error_def
      constant_clock_def Let_def)

text \<open>
  With a previous sample other than \<open>0\<close> the leak error is emitted exactly when the new
  value exceeds one and a half times the previous one.
\<close>

lemma memory_leak_threshold:
  assumes "last_memory_usage d = Some last_usage" and "last_usage \<noteq> 0"
    and "map_of memory_info ''total_pss_kb'' = Some total_pss" and "total_pss \<le> 500000"
  shows "\<exists>es. analyze_memory_usage d clk memory_info
                = Inr (es, d\<lparr>last_memory_usage := Some total_pss\<rparr>)
              \<and> map error_type es
                  = (if of_int total_pss > (of_int last_usage :: real) * 1.5
                     then [''potential_memory_leak''] else [])"
proof -
  have "memory_info \<noteq> []"
    using assms(3) by auto
  then show ?thesis
    using assms
    by (simp add: analyze_memory_usage_def potential_memory_leak_error_def Let_def)
qed


subsection \<open>The claims\<close>

text \<open>
  Claim C1. Every dispatched remediation attempt is said to update the cooldown timestamp
  of its kind, also when the strategy raises an exception. Evaluated on a fresh
  \<open>AutoFixer\<close> and an \<open>app_crash\<close> error at time 1000: when the strategy raises, the failed
  outcome is appended to the history but \<open>last_fix_times\<close> has no entry for \<open>app_crash\<close>
  afterwards, so the kind is not in cooldown; when the strategy returns \<open>FAILED\<close> the
  timestamp 1000 is recorded.
\<close>

theorem apply_fix_exception_leaves_cooldown:
  "fix_history (snd (apply_fix (strategy_raises ''device unreachable'') (constant_clock 1000)
                      new_auto_fixer (example_error ''app_crash'' CRITICAL 1000)))
     = [\<lparr> action_name = ''fix_app_crash'', result = FAILED,
          fix_message = ''Fix failed: device unreachable'',
          fix_details = [(''error'', FStr ''device unreachable''),
                         (''original_error'', FError (example_error ''app_crash'' CRITICAL 1000))],
          fix_timestamp = 1000, duration = 0 \<rparr>]
   \<and> last_fix_times (snd (apply_fix (strategy_raises ''device unreachable'') (constant_clock 1000)
                      new_auto_fixer (example_error ''app_crash'' CRITICAL 1000))) ''app_crash''
       = None
   \<and> can_attempt_fix 1001
        (snd (apply_fix (strategy_raises ''device unreachable'') (constant_clock 1000)
                new_auto_fixer (example_error ''app_crash'' CRITICAL 1000))) ''app_crash''
   \<and> last_fix_times (snd (apply_fix (strategy_returns FAILED) (constant_clock 1000)
                      new_auto_fixer (example_error ''app_crash'' CRITICAL 1000))) ''app_crash''
       = Some 1000"
  by (simp add: apply_fix_def can_attempt_fix_def new_auto_fixer_def example_error_def
      strategy_raises_def strategy_returns_def constant_clock_def fix_strategies_app_crash
      Let_def)







text \<open>
  Claim C4. When the number of entries of the remediation history whose timestamp lies in
  the trailing hour has reached the configured ceiling, \<open>_attempt_auto_fix\<close> returns at
  once: the monitor, and with it the AutoFixer, its history and the statistics, is left
  as it was, whatever the strategy would have done.
\<close>

theorem rate_limit_blocks_remediation:
  assumes "max_fix_attempts_per_hour (config m)
             \<le> int (length (filter (\<lambda>a. clk 0 - 3600 \<le> fix_timestamp a) (fix_history (fixer m))))"
  shows "attempt_auto_fix run clk m e = m"
  using assms by (simp add: attempt_auto_fix_def rate_limit_can_attempt_fix_def)

theorem rate_limit_blocks_remediation_witness:
  "max_fix_attempts_per_hour (config limited_monitor) = 2
   \<and> length (filter (\<lambda>a. constant_clock 3000 0 - 3600 \<le> fix_timestamp a)
               (fix_history (fixer limited_monitor))) = 2
   \<and> attempt_auto_fix (strategy_returns SUCCESS) (constant_clock 3000) limited_monitor
        (example_error ''app_crash'' CRITICAL 3000) = limited_monitor"
  using rate_limit_blocks_remediation
    [of limited_monitor "constant_clock 3000" "strategy_returns SUCCESS"
        "example_error ''app_crash'' CRITICAL 3000"]
  by (simp add: limited_monitor_def new_monitor_def default_config_def new_auto_fixer_def
      example_action_def constant_clock_def)

text \<open>
  Claim C5, as amended. With a positive cap (1000 in a new detector) the classifier history
  after \<open>add_detected_error\<close> is within the cap: it is the old history followed by the new
  error, cut at the old end to its newest entries. \<open>apply_fix\<close> enforces no cap: for every
  dispatched attempt (kind not in cooldown, strategy registered) it appends exactly one
  outcome to the remediation history, with the result that the strategy returned, or
  \<open>FAILED\<close> when the strategy raised; on a skip it returns no outcome and changes nothing.
  \<open>_cleanup_logs\<close>, run by the maintenance loop, cuts the remediation history to its newest
  200 entries and the classifier history to its newest 500.
\<close>

theorem history_caps:
  "(0 < max_history_size d \<longrightarrow>
      length (error_history (add_detected_error e d)) \<le> max_history_size d
      \<and> error_history (add_detected_error e d)
          = drop (length (error_history d) + 1 - max_history_size d) (error_history d @ [e]))
   \<and> (can_attempt_fix (clk 0) f (error_type e) \<and> fix_strategies (error_type e) = Some method
      \<longrightarrow> (\<exists>fa. fst (apply_fix run clk f e) = Some fa
               \<and> fix_history (snd (apply_fix run clk f e)) = fix_history f @ [fa]
               \<and> action_name fa = ''fix_'' @ error_type e
               \<and> fix_timestamp fa = clk 1
               \<and> result fa = (case run method e of Returned r \<Rightarrow> r | Raised x \<Rightarrow> FAILED)))
   \<and> (\<not> (can_attempt_fix (clk 0) f (error_type e) \<and> fix_strategies (error_type e) \<noteq> None)
      \<longrightarrow> apply_fix run clk f e = (None, f))
   \<and> fix_history (fixer (cleanup_logs m))
       = drop (length (fix_history (fixer m)) - 200) (fix_history (fixer m))
   \<and> length (fix_history (fixer (cleanup_logs m))) \<le> 200
   \<and> error_history (error_detector (cleanup_logs m))
       = drop (length (error_history (error_detector m)) - 500) (error_history (error_detector m))
   \<and> length (error_history (error_detector (cleanup_logs m))) \<le> 500"
proof (intro conjI impI)
  assume cap: "0 < max_history_size d"
  show "length (error_history (add_detected_error e d)) \<le> max_history_size d"
    using cap by (simp add: add_detected_error_def Let_def py_take_last_def)
  show "error_history (add_detected_error e d)
          = drop (length (error_history d) + 1 - max_history_size d) (error_history d @ [e])"
    using cap by (rule add_detected_error_history)
next
  assume "can_attempt_fix (clk 0) f (error_type e) \<and> fix_strategies (error_type e) = Some method"
  then show "\<exists>fa. fst (apply_fix run clk f e) = Some fa
               \<and> fix_history (snd (apply_fix run clk f e)) = fix_history f @ [fa]
               \<and> action_name fa = ''fix_'' @ error_type e
               \<and> fix_timestamp fa = clk 1
               \<and> result fa = (case run method e of Returned r \<Rightarrow> r | Raised x \<Rightarrow> FAILED)"
    by (cases "run method e") (simp_all add: apply_fix_def Let_def)
next
  assume "\<not> (can_attempt_fix (clk 0) f (error_type e) \<and> fix_strategies (error_type e) \<noteq> None)"
  then show "apply_fix run clk f e = (None, f)"
    by (auto simp add: apply_fix_def)
next
  show "fix_history (fixer (cleanup_logs m))
       = drop (length (fix_history (fixer m)) - 200) (fix_history (fixer m))"
    by (simp add: cleanup_logs_def Let_def py_take_last_def)
  show "length (fix_history (fixer (cleanup_logs m))) \<le> 200"
    by (simp add: cleanup_logs_def Let_def py_take_last_def)
  show "error_history (error_detector (cleanup_logs m))
       = drop (length (error_history (error_detector m)) - 500) (error_history (error_detector m))"
    by (simp add: cleanup_logs_def Let_def py_take_last_def)
  show "length (error_history (error_detector (cleanup_logs m))) \<le> 500"
    by (simp add: cleanup_logs_def Let_def py_take_last_def)
qed

theorem history_caps_witness:
  "0 < max_history_size ((new_detector default_ui_config)
                            \<lparr> error_history := replicate 1000 (example_error ''anr'' HIGH 1000) \<rparr>)
   \<and> length (error_history (add_detected_error (example_error ''app_crash'' CRITICAL 2000)
                ((new_detector default_ui_config)
                   \<lparr> error_history := replicate 1000 (example_error ''anr'' HIGH 1000) \<rparr>)))
        \<le> 1000
   \<and> error_history (add_detected_error (example_error ''app_crash'' CRITICAL 2000)
                ((new_detector default_ui_config)
                   \<lparr> error_history := replicate 1000 (example_error ''anr'' HIGH 1000) \<rparr>))
        = replicate 999 (example_error ''anr'' HIGH 1000)
            @ [example_error ''app_crash'' CRITICAL 2000]"
  using history_caps
    [of "(new_detector default_ui_config)
           \<lparr> error_history := replicate 1000 (example_error ''anr'' HIGH 1000) \<rparr>"
        "example_error ''app_crash'' CRITICAL 2000"]
  by (simp add: new_detector_def)

text \<open>
  Claim C5 as stated fails for the remediation history: an attempt dispatched on a history
  of 200 outcomes leaves 201.
\<close>

theorem fix_history_cap_counterexample:
  "length (fix_history full_fixer) = 200
   \<and> length (fix_history (snd (apply_fix (strategy_returns SUCCESS) (constant_clock 5000)
                                 full_fixer (example_error ''app_crash'' CRITICAL 5000)))) = 201"
  by (simp add: full_fixer_def apply_fix_def can_attempt_fix_def new_auto_fixer_def
      example_error_def strategy_returns_def constant_clock_def fix_strategies_app_crash Let_def)

text \<open>
  Claim C6. Two calls of \<open>stop\<close> are said to leave the lifecycle status \<open>stopped\<close>.
  Evaluated on a monitor in the \<open>monitoring\<close> state: after the two calls the status is
  \<open>stopping\<close>; it is still \<open>stopping\<close> when \<open>_cleanup\<close> has run after them, because
  \<open>_cleanup\<close> shuts the executor down before it submits the disconnect to it and so
  never reaches its assignment of \<open>stopped\<close>; and it is \<open>stopping\<close> when \<open>_cleanup\<close> runs
  between the two calls, as it does when \<open>start\<close> has returned before the second call.
\<close>

theorem stop_twice_never_stopped:
  "current_status (stats (stop (stop running_monitor))) = ''stopping''
   \<and> current_status (stats (cleanup (stop (stop running_monitor)))) = ''stopping''
   \<and> current_status (stats (stop (cleanup (stop running_monitor)))) = ''stopping''"
  by (simp add: stop_def cleanup_def running_monitor_def new_monitor_def)

text \<open>
  Claim C7. A log line that contains neither the package identifier nor, after
  lower-casing, any of the keywords \<open>fatal\<close>, \<open>error\<close>, \<open>exception\<close>, \<open>crash\<close>, \<open>anr\<close>
  yields no errors, whatever the patterns would match.
\<close>

theorem prefilter_no_errors:
  assumes "\<not> str_in app_package line"
    and "\<not> str_in ''fatal'' (lower line)"
    and "\<not> str_in ''error'' (lower line)"
    and "\<not> str_in ''exception'' (lower line)"
    and "\<not> str_in ''crash'' (lower line)"
    and "\<not> str_in ''anr'' (lower line)"
  shows "analyze_logcat_line re_search clk line = Inr []"
  using assms by (simp add: analyze_logcat_line_def relevance_keywords_def)

theorem prefilter_no_errors_witness:
  "\<not> str_in app_package ''Low memory: OOM''
   \<and> \<not> str_in ''fatal'' (lower ''Low memory: OOM'')
   \<and> \<not> str_in ''error'' (lower ''Low memory: OOM'')
   \<and> \<not> str_in ''exception'' (lower ''Low memory: OOM'')
   \<and> \<not> str_in ''crash'' (lower ''Low memory: OOM'')
   \<and> \<not> str_in ''anr'' (lower ''Low memory: OOM'')
   \<and> analyze_logcat_line match_everything (constant_clock 1000) ''Low memory: OOM'' = Inr []"
  using prefilter_no_errors [of "''Low memory: OOM''" match_everything "constant_clock 1000"]
  by (simp add: app_package_def lower_def lower_char_def)

text \<open>
  Claim C8. \<open>_detect_app_state\<close> returns one of the five states, the first in the order
  settings, loading, error\_welcome, browsing whose markers are present, and \<open>unknown\<close>
  when none is; a dump with a settings marker and the browsing marker is in state
  \<open>settings\<close>.
\<close>

theorem detect_app_state_priority:
  \<open>detect_app_state d \<in> {''settings'', ''loading'', ''error_welcome'', ''browsing'', ''unknown''}
   \<and> (detect_app_state d = ''settings'' \<longleftrightarrow>
        str_in ''SettingsActivity'' d \<or> str_in ''ProfilesActivity'' d
          \<or> str_in ''ProfileEditActivity'' d)
   \<and> (detect_app_state d = ''loading'' \<longleftrightarrow>
        detect_app_state d \<noteq> ''settings''
        \<and> (str_in ''loading'' (lower d) \<or> str_in ''progress'' (lower d)))
   \<and> (detect_app_state d = ''error_welcome'' \<longleftrightarrow>
        detect_app_state d \<notin> {''settings'', ''loading''}
        \<and> str_in ''welcomeContainer'' d \<and> \<not> str_in ''visibility="gone"'' d)
   \<and> (detect_app_state d = ''browsing'' \<longleftrightarrow>
        detect_app_state d \<notin> {''settings'', ''loading'', ''error_welcome''}
        \<and> str_in ''webViewCard'' d \<and> \<not> str_in ''visibility="gone"'' d)
   \<and> ((str_in ''SettingsActivity'' d \<or> str_in ''ProfilesActivity'' d
          \<or> str_in ''ProfileEditActivity'' d)
        \<and> str_in ''webViewCard'' d \<longrightarrow> detect_app_state d = ''settings'')\<close>
  by (simp add: detect_app_state_def)

theorem detect_app_state_priority_witness:
  \<open>str_in ''SettingsActivity'' ''SettingsActivity webViewCard''
   \<and> str_in ''webViewCard'' ''SettingsActivity webViewCard''
   \<and> detect_app_state ''SettingsActivity webViewCard'' = ''settings''\<close>
  using detect_app_state_priority [of "''SettingsActivity webViewCard''"]
  by simp

text \<open>
  Claim C9. With a previous sample, the leak error is said to be emitted exactly when the
  new value exceeds one and a half times the previous one. Evaluated on a fresh detector:
  a first report without a total (only the native heap was parsed) stores the previous
  sample \<open>0\<close>; the next report, with a total of 160000 KB, exceeds \<open>0 * 1.5\<close>, and the
  computation of the percentage divides by the previous sample: the analysis raises
  \<open>ZeroDivisionError\<close> and emits nothing.
\<close>

theorem analyze_memory_usage_zero_previous:
  "analyze_memory_usage (new_detector default_ui_config) (constant_clock 1000)
       [(''native_heap_kb'', 2048)]
     = Inr ([], (new_detector default_ui_config)\<lparr>last_memory_usage := Some 0\<rparr>)
   \<and> analyze_memory_usage ((new_detector default_ui_config)\<lparr>last_memory_usage := Some 0\<rparr>)
        (constant_clock 1030) [(''total_pss_kb'', 160000)] = Inl ZeroDivisionError"
  by (simp add: analyze_memory_usage_def new_detector_def Let_def)

text \<open>
  Claim C10. For an empty UI dump the UI analysis returns no errors: neither
  \<open>no_focused_element\<close> nor \<open>missing_ui_element\<close>, whatever the configuration expects.
\<close>

theorem analyze_ui_dump_empty:
  "analyze_ui_dump d clk [] = []"
  by (simp add: analyze_ui_dump_def)

end
